theory Spec2Isabelle
  imports Complex_Main
begin

section \<open>The longitudinal vehicle model\<close>

text \<open>
  The notebook \<^verbatim>\<open>Longitudinal_Vehicle_Model.ipynb\<close> defines a class \<^verbatim>\<open>Vehicle\<close> with
  thirteen parameters and five state variables, a method \<^verbatim>\<open>reset\<close>, a method \<^verbatim>\<open>step\<close>,
  and cells that drive the model in a loop; two of the loops record its state.

  Numbers. A value the code computes with is a Python \<^verbatim>\<open>int\<close>, a Python \<^verbatim>\<open>float\<close> or a
  \<^verbatim>\<open>numpy.float64\<close>: the constructor and \<^verbatim>\<open>reset\<close> store Python integers, the notebook calls
  \<^verbatim>\<open>step\<close> with Python integers, Python floats and elements of \<^verbatim>\<open>float64\<close> arrays, and
  \<^verbatim>\<open>step\<close> stores \<^verbatim>\<open>numpy.float64\<close> values, since every value it stores depends on
  \<^verbatim>\<open>np.sin(alpha)\<close>. Other numeric types are not modelled. A Python integer is an integer
  of any size. A float of either kind is modelled as a real number: rounding, and the
  overflow of float arithmetic to \<^verbatim>\<open>inf\<close>, which raises nothing, are not modelled, so every
  equation below is an equation of exact arithmetic.

  What the kind of a number decides is kept:
  \<^item> arithmetic of a Python integer with a float converts the integer to a double, and
    raises \<^verbatim>\<open>OverflowError\<close> when the integer is beyond the range of a double;
  \<^item> \<^verbatim>\<open>np.sin\<close> takes a Python integer that fits one of numpy's 64-bit integer types, and
    raises for a larger one (\<^verbatim>\<open>TypeError\<close>; \<^verbatim>\<open>AttributeError\<close> in old releases of numpy);
  \<^item> \<^verbatim>\<open>/\<close> raises \<^verbatim>\<open>ZeroDivisionError\<close> when the divisor is zero and both operands are
    Python scalars, and returns \<^verbatim>\<open>inf\<close>, \<^verbatim>\<open>-inf\<close> or \<^verbatim>\<open>nan\<close>, with a warning under numpy's
    default error state, as soon as one operand is a \<^verbatim>\<open>numpy.float64\<close>.
  The parameters are the Python scalars the constructor assigns, each in the range of a
  double; no method assigns a parameter.
\<close>

datatype num = PyInt int | PyFloat real | Np real

fun val :: "num \<Rightarrow> real" where
  "val (PyInt k) = of_int k"
| "val (PyFloat r) = r"
| "val (Np r) = r"

fun is_py :: "num \<Rightarrow> bool" where
  "is_py (PyInt k) = True"
| "is_py (PyFloat r) = True"
| "is_py (Np r) = False"

datatype py_error = OverflowError | NumpyTypeError | ZeroDivisionError

text \<open>
  The conversion of an operand to a double. The largest double is \<open>2 ^ 1024 - 2 ^ 971\<close>;
  an integer rounds to a double, to nearest and ties to even, when its magnitude is below
  \<open>2 ^ 1024 - 2 ^ 970\<close>, and is too large otherwise.
\<close>

fun fits_double :: "num \<Rightarrow> bool" where
  "fits_double (PyInt k) = (\<bar>k\<bar> < 2 ^ 1024 - 2 ^ 970)"
| "fits_double (PyFloat r) = True"
| "fits_double (Np r) = True"

definition as_float :: "num \<Rightarrow> py_error + real" where
  "as_float p = (if fits_double p then Inr (val p) else Inl OverflowError)"

text \<open>
  \<^verbatim>\<open>np.sin\<close>: a Python integer is taken as an \<^verbatim>\<open>int64\<close> or a \<^verbatim>\<open>uint64\<close>, and refused when it
  fits neither.
\<close>

fun numpy_number :: "num \<Rightarrow> bool" where
  "numpy_number (PyInt k) = (- (2 ^ 63) \<le> k \<and> k < 2 ^ 64)"
| "numpy_number (PyFloat r) = True"
| "numpy_number (Np r) = True"

definition np_sin :: "num \<Rightarrow> py_error + real" where
  "np_sin p = (if numpy_number p then Inr (sin (val p)) else Inl NumpyTypeError)"

text \<open>
  The value of a division: a finite number, or one of \<^verbatim>\<open>inf\<close>, \<^verbatim>\<open>-inf\<close>, \<^verbatim>\<open>nan\<close>. The three
  are not told apart: the code only ever takes \<^verbatim>\<open>abs(s) < 1\<close> of such a value, which is
  false for each of them.
\<close>

datatype quotient = Finite real | NonFinite

text \<open>
  An arithmetic expression over the given operands and Python floats, with value \<open>r\<close>: a
  Python float when every operand is a Python scalar, a \<^verbatim>\<open>numpy.float64\<close> otherwise.
\<close>

definition arith :: "num list \<Rightarrow> real \<Rightarrow> num" where
  "arith operands r = (if list_all is_py operands then PyFloat r else Np r)"

text \<open>\<^verbatim>\<open>p / q\<close> for operands that have been converted without an error.\<close>

definition truediv :: "num \<Rightarrow> num \<Rightarrow> py_error + quotient" where
  "truediv p q =
     (if val q \<noteq> 0 then Inr (Finite (val p / val q))
      else if is_py p \<and> is_py q then Inl ZeroDivisionError
      else Inr NonFinite)"

text \<open>\<^verbatim>\<open>abs(s) < 1\<close>: a comparison with \<^verbatim>\<open>inf\<close> or \<^verbatim>\<open>nan\<close> on the left is false.\<close>

fun abs_lt_1 :: "quotient \<Rightarrow> bool" where
  "abs_lt_1 (Finite s) = (\<bar>s\<bar> < 1)"
| "abs_lt_1 NonFinite = False"

fun finite_val :: "quotient \<Rightarrow> real" where
  "finite_val (Finite s) = s"
| "finite_val NonFinite = 0"

subsection \<open>The class\<close>

record Vehicle =
  a_0 :: real
  a_1 :: real
  a_2 :: real
  GR :: real
  r_e :: real
  J_e :: real
  m :: real
  g :: real
  c_a :: real
  c_r1 :: real
  c :: real
  F_max :: real
  x :: num
  v :: num
  a :: num
  w_e :: num
  w_e_dot :: num
  sample_time :: real

text \<open>\<^verbatim>\<open>Vehicle.__init__\<close>\<close>

definition Vehicle_init :: Vehicle where
  "Vehicle_init =
     \<lparr> a_0 = 400, a_1 = 0.1, a_2 = - 0.0002,
       GR = 0.35, r_e = 0.3, J_e = 10, m = 2000, g = 9.81,
       c_a = 1.36, c_r1 = 0.01,
       c = 10000, F_max = 10000,
       x = PyInt 0, v = PyInt 5, a = PyInt 0, w_e = PyInt 100, w_e_dot = PyInt 0,
       sample_time = 0.01 \<rparr>"

text \<open>\<^verbatim>\<open>Vehicle.reset\<close>\<close>

definition reset :: "Vehicle \<Rightarrow> Vehicle" where
  "reset self =
     self\<lparr> x := PyInt 0, v := PyInt 5, a := PyInt 0, w_e := PyInt 100, w_e_dot := PyInt 0 \<rparr>"

text \<open>
  The tire force of \<^verbatim>\<open>step\<close>: the \<^verbatim>\<open>if abs(s) < 1: ... else: ...\<close> statement. In the first
  branch \<open>s\<close> is finite.
\<close>

definition tire_force :: "Vehicle \<Rightarrow> quotient \<Rightarrow> real" where
  "tire_force self s = (if abs_lt_1 s then c self * finite_val s else F_max self)"

text \<open>
  \<^verbatim>\<open>Vehicle.step\<close>, statement by statement. An operand is converted where the code first
  computes with it, each time with a float as the other operand: \<^verbatim>\<open>self.v\<close> in \<^verbatim>\<open>R_x\<close>,
  \<^verbatim>\<open>alpha\<close> in \<^verbatim>\<open>np.sin\<close>, \<^verbatim>\<open>self.w_e\<close> and then \<^verbatim>\<open>throttle\<close> in \<^verbatim>\<open>T_e\<close>, \<^verbatim>\<open>self.x\<close> in
  \<^verbatim>\<open>self.x += ...\<close>; the old values of \<^verbatim>\<open>self.a\<close> and \<^verbatim>\<open>self.w_e_dot\<close> are not read. The
  numerator of the slip ratio is computed from \<^verbatim>\<open>self.w_e\<close>, \<^verbatim>\<open>self.v\<close> and Python floats.
  Every stored value has \<^verbatim>\<open>F_load\<close> among its operands, which has \<^verbatim>\<open>np.sin(alpha)\<close> among
  its own, and is a \<^verbatim>\<open>numpy.float64\<close>; the divisions by \<^verbatim>\<open>self.m\<close> and \<^verbatim>\<open>self.J_e\<close> have such
  a numerator and never raise. When \<^verbatim>\<open>self.x += ...\<close> raises, \<^verbatim>\<open>self.a\<close> and \<^verbatim>\<open>self.v\<close> have
  been assigned; the model returns the exception alone.
\<close>

definition step :: "Vehicle \<Rightarrow> num \<Rightarrow> num \<Rightarrow> py_error + Vehicle" where
  "step self throttle alpha =
     (case as_float (v self) of Inl e \<Rightarrow> Inl e | Inr self_v \<Rightarrow>
      (let R_x = c_r1 self * self_v
       in case np_sin alpha of Inl e \<Rightarrow> Inl e | Inr sin_alpha \<Rightarrow>
      (let F_g = m self * g self * sin_alpha;
           F_aero = c_a self * self_v * self_v;
           F_load = F_aero + R_x + F_g
       in case as_float (w_e self) of Inl e \<Rightarrow> Inl e | Inr self_w_e \<Rightarrow>
          case as_float throttle of Inl e \<Rightarrow> Inl e | Inr throttle' \<Rightarrow>
      (let T_e = throttle' * (a_0 self + (a_1 self * self_w_e)
                               + (a_2 self * self_w_e * self_w_e));
           w_w = GR self * self_w_e
       in case truediv (arith [w_e self, v self] ((w_w * r_e self) - self_v)) (v self) of
            Inl e \<Rightarrow> Inl e
          | Inr s \<Rightarrow>
      (let F_x = tire_force self s;
           a' = (F_x - F_load) / m self;
           v' = self_v + a' * sample_time self
       in case as_float (x self) of Inl e \<Rightarrow> Inl e | Inr self_x \<Rightarrow>
      (let x' = self_x + v' * sample_time self;
           w_e_dot' = (T_e - (GR self * r_e self * F_load)) / J_e self;
           w_e' = self_w_e + w_e_dot' * sample_time self
       in Inr (self\<lparr> a := Np a', v := Np v', x := Np x',
                       w_e_dot := Np w_e_dot', w_e := Np w_e' \<rparr>)))))))"

text \<open>
  The divisions by \<^verbatim>\<open>self.m\<close> and \<^verbatim>\<open>self.J_e\<close> give a finite number when the divisor is not
  zero, as with the constructor's parameters, which no method changes. Statements about
  the numbers \<^verbatim>\<open>step\<close> stores are made for such parameters.
\<close>

definition params_ok :: "Vehicle \<Rightarrow> bool" where
  "params_ok self = (m self \<noteq> 0 \<and> J_e self \<noteq> 0)"

text \<open>
  No conversion of \<^verbatim>\<open>step\<close> fails: no Python integer among \<^verbatim>\<open>self.v\<close>, \<^verbatim>\<open>self.w_e\<close>,
  \<^verbatim>\<open>self.x\<close> and \<^verbatim>\<open>throttle\<close> is beyond the range of a double, and \<^verbatim>\<open>alpha\<close> is a float or a
  Python integer that numpy takes. Floats satisfy it always.
\<close>

definition operands_ok :: "Vehicle \<Rightarrow> num \<Rightarrow> num \<Rightarrow> bool" where
  "operands_ok self throttle alpha =
     (fits_double (v self) \<and> numpy_number alpha \<and> fits_double (w_e self)
      \<and> fits_double throttle \<and> fits_double (x self))"

subsection \<open>Reachable states and runs\<close>

text \<open>
  The states the three operations produce. A caller can also assign to the attributes
  directly; such states are values of the record that need not be reachable.
\<close>

inductive reachable :: "Vehicle \<Rightarrow> bool" where
  construct: "reachable Vehicle_init"
| after_reset: "reachable M \<Longrightarrow> reachable (reset M)"
| after_step: "reachable M \<Longrightarrow> step M throttle alpha = Inr M' \<Longrightarrow> reachable M'"

text \<open>
  \<^verbatim>\<open>step\<close> applied to a sequence of (throttle, angle) inputs, one after the other; an
  exception ends the run.
\<close>

fun steps :: "Vehicle \<Rightarrow> (num \<times> num) list \<Rightarrow> py_error + Vehicle" where
  "steps M [] = Inr M"
| "steps M (u # us) =
     (case step M (fst u) (snd u) of Inl e \<Rightarrow> Inl e | Inr M' \<Rightarrow> steps M' us)"

text \<open>The parameters and the state variables of two models agree.\<close>

definition same_parameters :: "Vehicle \<Rightarrow> Vehicle \<Rightarrow> bool" where
  "same_parameters M N =
     (a_0 M = a_0 N \<and> a_1 M = a_1 N \<and> a_2 M = a_2 N \<and> GR M = GR N \<and> r_e M = r_e N
      \<and> J_e M = J_e N \<and> m M = m N \<and> g M = g N \<and> c_a M = c_a N \<and> c_r1 M = c_r1 N
      \<and> c M = c N \<and> F_max M = F_max N \<and> sample_time M = sample_time N)"

definition same_state :: "Vehicle \<Rightarrow> Vehicle \<Rightarrow> bool" where
  "same_state M N =
     (x M = x N \<and> v M = v N \<and> a M = a N \<and> w_e M = w_e N \<and> w_e_dot M = w_e_dot N)"

subsection \<open>The driving loops\<close>

text \<open>\<^verbatim>\<open>np.arange(0, stop, step)\<close>: the values \<open>i * step\<close> below \<open>stop\<close>.\<close>

definition arange :: "real \<Rightarrow> real \<Rightarrow> real list" where
  "arange stop stp = map (\<lambda>i. real i * stp) [0 ..< nat \<lceil>stop / stp\<rceil>]"

text \<open>
  The loop of the constant-throttle cell, from index \<open>i\<close> on, with \<open>n\<close> for
  \<^verbatim>\<open>t_data.shape[0]\<close>, the length of \<^verbatim>\<open>v_data\<close>:
  \<^verbatim>\<open>for i in range(t_data.shape[0]): v_data[i] = model.v; model.step(throttle, alpha)\<close>
  The arrays hold doubles: the assignment to an element converts the value.
\<close>

function constant_throttle_loop ::
  "nat \<Rightarrow> nat \<Rightarrow> num \<Rightarrow> num \<Rightarrow> Vehicle \<Rightarrow> real list \<Rightarrow> py_error + Vehicle \<times> real list" where
  "constant_throttle_loop i n throttle alpha model v_data =
     (if i < n then
        (case as_float (v model) of Inl e \<Rightarrow> Inl e | Inr model_v \<Rightarrow>
        (let v_data = v_data[i := model_v]
         in case step model throttle alpha of
              Inl e \<Rightarrow> Inl e
            | Inr model' \<Rightarrow> constant_throttle_loop (Suc i) n throttle alpha model' v_data))
      else Inr (model, v_data))"
  by pat_completeness auto
termination
  by (relation "measure (\<lambda>(i, n, throttle, alpha, model, v_data). n - i)") auto

text \<open>
  The ramp cell. The angle written to \<^verbatim>\<open>alpha_a[i]\<close>, from \<^verbatim>\<open>model.x\<close>, and the throttle
  written to \<^verbatim>\<open>throttle_a[i]\<close>, from \<^verbatim>\<open>t_data[i]\<close>; \<open>/\<close> is Python 3's true division.
\<close>

definition ramp_alpha :: "real \<Rightarrow> real" where
  "ramp_alpha model_x =
     (if model_x < 60 then arctan (3 / 60)
      else if model_x \<le> 60 \<or> model_x < 150 then arctan (9 / 90)
      else 0)"

definition ramp_throttle :: "real \<Rightarrow> real" where
  "ramp_throttle t =
     (if t < 5 then ((0.3 / 5) * t) + 0.2
      else if 5 \<le> t \<and> t \<le> 15 then 0.5
      else 0.5 - 0.5 / 5 * (t - 15))"

text \<open>The arrays the ramp loop fills; \<open>v_a\<close> is the array the cell calls \<^verbatim>\<open>v\<close>.\<close>

record ramp_arrays =
  alpha_a :: "real list"
  throttle_a :: "real list"
  x_data :: "real list"
  v_a :: "real list"

text \<open>
  The cell creates each array with \<^verbatim>\<open>np.zeros_like(t_data)\<close>: all four have the length of
  \<^verbatim>\<open>t_data\<close>, and no index of the loop is out of range.
\<close>

definition arrays_of_length :: "nat \<Rightarrow> ramp_arrays \<Rightarrow> bool" where
  "arrays_of_length n arrays =
     (length (alpha_a arrays) = n \<and> length (throttle_a arrays) = n
      \<and> length (x_data arrays) = n \<and> length (v_a arrays) = n)"

text \<open>
  The loop of the ramp cell, from index \<open>i\<close> on. \<^verbatim>\<open>step\<close> is called with the elements
  \<^verbatim>\<open>throttle_a[i]\<close> and \<^verbatim>\<open>alpha_a[i]\<close>, which are \<^verbatim>\<open>numpy.float64\<close> values.
\<close>

function ramp_loop ::
  "nat \<Rightarrow> real list \<Rightarrow> Vehicle \<Rightarrow> ramp_arrays \<Rightarrow> py_error + Vehicle \<times> ramp_arrays" where
  "ramp_loop i t_data model arrays =
     (if i < length t_data then
        (let arrays = arrays\<lparr> alpha_a := (alpha_a arrays)[i := ramp_alpha (val (x model))] \<rparr>;
             arrays = arrays\<lparr> throttle_a := (throttle_a arrays)[i := ramp_throttle (t_data ! i)] \<rparr>
         in case as_float (x model) of Inl e \<Rightarrow> Inl e | Inr model_x \<Rightarrow>
            case as_float (v model) of Inl e \<Rightarrow> Inl e | Inr model_v \<Rightarrow>
        (let arrays = arrays\<lparr> x_data := (x_data arrays)[i := model_x] \<rparr>;
             arrays = arrays\<lparr> v_a := (v_a arrays)[i := model_v] \<rparr>
         in case step model (Np (throttle_a arrays ! i)) (Np (alpha_a arrays ! i)) of
              Inl e \<Rightarrow> Inl e
            | Inr model' \<Rightarrow> ramp_loop (Suc i) t_data model' arrays))
      else Inr (model, arrays))"
  by pat_completeness auto
termination
  by (relation "measure (\<lambda>(i, t_data, model, arrays). length t_data - i)") auto

text \<open>
  The model at the start of iteration \<open>i\<close> of each loop, without the recording: the state
  before the call of \<^verbatim>\<open>step\<close> for index \<open>i\<close>.
\<close>

fun constant_throttle_model :: "num \<Rightarrow> num \<Rightarrow> Vehicle \<Rightarrow> nat \<Rightarrow> py_error + Vehicle" where
  "constant_throttle_model throttle alpha M 0 = Inr M"
| "constant_throttle_model throttle alpha M (Suc i) =
     (case constant_throttle_model throttle alpha M i of
        Inl e \<Rightarrow> Inl e
      | Inr M' \<Rightarrow> step M' throttle alpha)"

fun ramp_model :: "real list \<Rightarrow> Vehicle \<Rightarrow> nat \<Rightarrow> py_error + Vehicle" where
  "ramp_model t_data M 0 = Inr M"
| "ramp_model t_data M (Suc i) =
     (case ramp_model t_data M i of
        Inl e \<Rightarrow> Inl e
      | Inr M' \<Rightarrow> step M' (Np (ramp_throttle (t_data ! i))) (Np (ramp_alpha (val (x M')))))"

subsection \<open>The two recording cells\<close>

text \<open>
  \<^verbatim>\<open>np.zeros_like(t_data)\<close>, and the two cells as the notebook runs them: the
  constant-throttle cell on a new model for 100 seconds, with the Python float 0.2 for the
  throttle and the Python integer 0 for the angle, the ramp cell on the same model after
  \<^verbatim>\<open>model.reset()\<close> for 20 seconds, both with the sample time 0.01.
\<close>

definition zeros_like :: "real list \<Rightarrow> real list" where
  "zeros_like t_data = replicate (length t_data) 0"

definition constant_throttle_cell :: "py_error + Vehicle \<times> real list" where
  "constant_throttle_cell =
     (let t_data = arange 100 0.01;
          v_data = zeros_like t_data
      in constant_throttle_loop 0 (length t_data) (PyFloat 0.2) (PyInt 0) Vehicle_init v_data)"

definition ramp_cell :: "Vehicle \<Rightarrow> py_error + Vehicle \<times> ramp_arrays" where
  "ramp_cell model =
     (let t_data = arange 20 0.01;
          arrays = \<lparr> alpha_a = zeros_like t_data, throttle_a = zeros_like t_data,
                     x_data = zeros_like t_data, v_a = zeros_like t_data \<rparr>
      in ramp_loop 0 t_data (reset model) arrays)"

section \<open>Auxiliary facts\<close>

declare constant_throttle_loop.simps [simp del] ramp_loop.simps [simp del]

lemma as_float_fits: "fits_double p \<Longrightarrow> as_float p = Inr (val p)"
  by (simp add: as_float_def)

lemma as_float_overflow: "\<not> fits_double p \<Longrightarrow> as_float p = Inl OverflowError"
  by (simp add: as_float_def)

lemma as_float_Inr: "as_float p = Inr r \<Longrightarrow> fits_double p \<and> r = val p"
  by (auto simp add: as_float_def split: if_splits)

lemma np_sin_number: "numpy_number p \<Longrightarrow> np_sin p = Inr (sin (val p))"
  by (simp add: np_sin_def)

lemma np_sin_refused: "\<not> numpy_number p \<Longrightarrow> np_sin p = Inl NumpyTypeError"
  by (simp add: np_sin_def)

lemma np_sin_Inr: "np_sin p = Inr r \<Longrightarrow> numpy_number p \<and> r = sin (val p)"
  by (auto simp add: np_sin_def split: if_splits)

lemma truediv_nonzero: "val q \<noteq> 0 \<Longrightarrow> truediv p q = Inr (Finite (val p / val q))"
  by (simp add: truediv_def)

lemma val_arith [simp]: "val (arith ps r) = r"
  by (simp add: arith_def)

lemma is_py_arith [simp]: "is_py (arith ps r) = list_all is_py ps"
  by (simp add: arith_def)

lemma truediv_zero_np:
  "val q = 0 \<Longrightarrow> \<not> is_py p \<or> \<not> is_py q \<Longrightarrow> truediv p q = Inr NonFinite"
  by (auto simp add: truediv_def)

lemma truediv_zero_py:
  "val q = 0 \<Longrightarrow> is_py p \<Longrightarrow> is_py q \<Longrightarrow> truediv p q = Inl ZeroDivisionError"
  by (simp add: truediv_def)

text \<open>
  When no conversion fails, \<^verbatim>\<open>step\<close> is the division of the slip ratio followed by the
  assignments.
\<close>

lemma step_converted:
  assumes "operands_ok M throttle alpha"
  shows "step M throttle alpha =
    (case truediv (arith [w_e M, v M] (GR M * val (w_e M) * r_e M - val (v M))) (v M) of
       Inl e \<Rightarrow> Inl e
     | Inr s \<Rightarrow>
        (let F_load = c_a M * val (v M) * val (v M) + c_r1 M * val (v M)
                        + m M * g M * sin (val alpha);
             T_e = val throttle * (a_0 M + a_1 M * val (w_e M)
                                     + a_2 M * val (w_e M) * val (w_e M));
             a' = (tire_force M s - F_load) / m M;
             v' = val (v M) + a' * sample_time M;
             x' = val (x M) + v' * sample_time M;
             w_e_dot' = (T_e - GR M * r_e M * F_load) / J_e M;
             w_e' = val (w_e M) + w_e_dot' * sample_time M
         in Inr (M\<lparr> a := Np a', v := Np v', x := Np x',
                      w_e_dot := Np w_e_dot', w_e := Np w_e' \<rparr>)))"
  using assms
  by (simp add: step_def operands_ok_def as_float_fits np_sin_number Let_def mult.assoc
      split: sum.split)

lemma step_Inr_operands:
  assumes "step M throttle alpha = Inr M'"
  shows "operands_ok M throttle alpha"
  using assms
  by (auto simp add: step_def operands_ok_def Let_def
      dest!: as_float_Inr np_sin_Inr split: sum.splits)

lemma step_first_example:
  "step Vehicle_init (PyFloat 0.2) (PyInt 0) =
     Inr (Vehicle_init\<lparr> a := Np 4.982975, v := Np 5.04982975, x := Np 0.0504982975,
                        w_e_dot := Np 7.802475, w_e := Np 100.07802475 \<rparr>)"
  by (simp add: step_def as_float_def np_sin_def truediv_def tire_force_def Let_def
      Vehicle_init_def)

lemma step_Inr_fields:
  assumes "step M throttle alpha = Inr M'"
  shows "\<exists>s. truediv (arith [w_e M, v M] (GR M * val (w_e M) * r_e M - val (v M))) (v M) = Inr s
      \<and> a M' = Np ((tire_force M s
                     - (c_a M * val (v M) * val (v M) + c_r1 M * val (v M)
                        + m M * g M * sin (val alpha))) / m M)
      \<and> v M' = Np (val (v M) + val (a M') * sample_time M)
      \<and> x M' = Np (val (x M) + val (v M') * sample_time M)
      \<and> w_e_dot M' = Np ((val throttle * (a_0 M + a_1 M * val (w_e M)
                                            + a_2 M * val (w_e M) * val (w_e M))
                      - GR M * r_e M * (c_a M * val (v M) * val (v M) + c_r1 M * val (v M)
                                          + m M * g M * sin (val alpha))) / J_e M)
      \<and> w_e M' = Np (val (w_e M) + val (w_e_dot M') * sample_time M)"
  using assms step_converted [OF step_Inr_operands [OF assms]]
  by (auto simp add: Let_def split: sum.splits)

lemma step_frame:
  assumes "step M throttle alpha = Inr M'"
  shows "same_parameters M' M"
  using assms step_converted [OF step_Inr_operands [OF assms]]
  by (auto simp add: Let_def same_parameters_def split: sum.splits)

lemma step_defined:
  assumes "operands_ok M throttle alpha"
    and "val (v M) \<noteq> 0 \<or> \<not> is_py (v M) \<or> \<not> is_py (w_e M)"
  shows "\<exists>M'. step M throttle alpha = Inr M'"
  using assms(2)
  by (auto simp add: step_converted [OF assms(1)] Let_def truediv_def)

lemma reachable_invariant:
  "reachable M \<Longrightarrow>
     fits_double (v M) \<and> fits_double (w_e M) \<and> fits_double (x M)
     \<and> (val (v M) \<noteq> 0 \<or> \<not> is_py (v M))"
proof (induction rule: reachable.induct)
  case construct
  show ?case by (simp add: Vehicle_init_def)
next
  case (after_reset M)
  show ?case by (simp add: reset_def)
next
  case (after_step M throttle alpha M')
  from step_Inr_fields [OF after_step.hyps(2)] show ?case by auto
qed

lemma reachable_parameters: "reachable M \<Longrightarrow> same_parameters M Vehicle_init"
proof (induction rule: reachable.induct)
  case construct
  show ?case by (simp add: same_parameters_def)
next
  case (after_reset M)
  then show ?case by (simp add: reset_def same_parameters_def)
next
  case (after_step M throttle alpha M')
  from step_frame [OF after_step.hyps(2)] after_step.IH
  show ?case by (simp add: same_parameters_def)
qed

lemma reset_of_default_parameters:
  "same_parameters M Vehicle_init \<Longrightarrow> reset M = Vehicle_init"
  by (simp add: same_parameters_def reset_def Vehicle_init_def)

lemma reachable_step_defined:
  assumes "reachable M" and "fits_double throttle" and "numpy_number alpha"
  shows "\<exists>M'. step M throttle alpha = Inr M'"
proof -
  from reachable_invariant [OF assms(1)] assms(2,3)
  have "operands_ok M throttle alpha" and "val (v M) \<noteq> 0 \<or> \<not> is_py (v M)"
    by (simp_all add: operands_ok_def)
  then show ?thesis
    by (intro step_defined) blast+
qed

lemma tire_force_Finite:
  "tire_force M (Finite s) = (if \<bar>s\<bar> < 1 then c M * s else F_max M)"
  by (simp add: tire_force_def)

lemma step_acceleration:
  assumes "val (v M) \<noteq> 0" and "operands_ok M throttle alpha"
  shows "\<exists>M'. step M throttle alpha = Inr M'
         \<and> val (a M') =
             (tire_force M (Finite ((GR M * val (w_e M) * r_e M - val (v M)) / val (v M)))
              - (c_a M * (val (v M))\<^sup>2 + c_r1 M * val (v M) + m M * g M * sin (val alpha)))
             / m M"
  using assms(1)
  by (simp add: step_converted [OF assms(2)] Let_def truediv_nonzero power2_eq_square)

lemma tire_force_right_limit:
  "((\<lambda>s. tire_force M (Finite s)) \<longlongrightarrow> - c M) (at_right (- 1))"
proof -
  have ev: "\<forall>\<^sub>F s in at_right (- 1). c M * s = tire_force M (Finite s)"
    by (rule eventually_at_rightI [of "- 1" 1]) (auto simp add: tire_force_Finite)
  have "((\<lambda>s. c M * s) \<longlongrightarrow> c M * (- 1)) (at_right (- 1))"
    by (intro tendsto_intros)
  then have "((\<lambda>s. c M * s) \<longlongrightarrow> - c M) (at_right (- 1))"
    by simp
  then show ?thesis
    using ev by (rule Lim_transform_eventually)
qed

lemma tire_force_jump:
  assumes "F_max M \<noteq> - c M"
  shows "\<not> isCont (\<lambda>s. tire_force M (Finite s)) (- 1)"
proof
  assume "isCont (\<lambda>s. tire_force M (Finite s)) (- 1)"
  then have "((\<lambda>s. tire_force M (Finite s)) \<longlongrightarrow> tire_force M (Finite (- 1))) (at (- 1))"
    by (simp add: isCont_def)
  then have "((\<lambda>s. tire_force M (Finite s)) \<longlongrightarrow> tire_force M (Finite (- 1))) (at_right (- 1))"
    by (rule filterlim_mono) (simp_all add: at_le)
  with tire_force_right_limit [of M]
  have "tire_force M (Finite (- 1)) = - c M"
    by (intro tendsto_unique [OF trivial_limit_at_right_real])
  with assms show False
    by (simp add: tire_force_Finite)
qed

lemma reachable_first_example:
  "reachable (Vehicle_init\<lparr> a := Np 4.982975, v := Np 5.04982975, x := Np 0.0504982975,
                           w_e_dot := Np 7.802475, w_e := Np 100.07802475 \<rparr>)"
  by (rule reachable.after_step [OF reachable.construct step_first_example])

lemma reset_frame: "same_parameters (reset M) M"
  by (simp add: reset_def same_parameters_def)

lemma same_parameters_state_eq:
  "same_parameters M N \<Longrightarrow> same_state M N \<Longrightarrow> M = (N :: Vehicle)"
  by (simp add: same_parameters_def same_state_def)

lemma steps_replay:
  assumes "reachable M"
  shows "steps (reset M) us = steps Vehicle_init us"
  using reset_of_default_parameters [OF reachable_parameters [OF assms]] by simp

lemma step_zero_np:
  assumes "operands_ok M throttle alpha"
    and "val (v M) = 0" and "\<not> is_py (v M) \<or> \<not> is_py (w_e M)"
  shows "\<exists>M'. step M throttle alpha = Inr M'
          \<and> val (a M') =
              (F_max M - (c_a M * (val (v M))\<^sup>2 + c_r1 M * val (v M)
                           + m M * g M * sin (val alpha))) / m M"
proof -
  have "truediv (arith [w_e M, v M] (GR M * val (w_e M) * r_e M - val (v M))) (v M)
          = Inr NonFinite"
    using assms(2,3) by (intro truediv_zero_np) auto
  then show ?thesis
    using assms(2) by (simp add: step_converted [OF assms(1)] Let_def tire_force_def)
qed

lemma step_zero_py:
  assumes "operands_ok M throttle alpha"
    and "val (v M) = 0" and "is_py (v M)" and "is_py (w_e M)"
  shows "step M throttle alpha = Inl ZeroDivisionError"
proof -
  have "truediv (arith [w_e M, v M] (GR M * val (w_e M) * r_e M - val (v M))) (v M)
          = Inl ZeroDivisionError"
    using assms(2,3,4) by (intro truediv_zero_py) auto
  then show ?thesis
    by (simp add: step_converted [OF assms(1)])
qed

lemma step_overflow_v:
  assumes "\<not> fits_double (v M)"
  shows "step M throttle alpha = Inl OverflowError"
  using assms by (simp add: step_def as_float_overflow)

lemma step_sin_refused:
  assumes "fits_double (v M)" and "\<not> numpy_number alpha"
  shows "step M throttle alpha = Inl NumpyTypeError"
  using assms by (simp add: step_def as_float_fits np_sin_refused Let_def)

lemma step_overflow_w_e_throttle:
  assumes "fits_double (v M)" and "numpy_number alpha"
    and "\<not> fits_double (w_e M) \<or> \<not> fits_double throttle"
  shows "step M throttle alpha = Inl OverflowError"
  using assms
  by (auto simp add: step_def as_float_def np_sin_number Let_def)

lemma step_overflow_x:
  assumes "fits_double (v M)" and "numpy_number alpha" and "fits_double (w_e M)"
    and "fits_double throttle" and "val (v M) \<noteq> 0 \<or> \<not> is_py (v M) \<or> \<not> is_py (w_e M)"
    and "\<not> fits_double (x M)"
  shows "step M throttle alpha = Inl OverflowError"
  using assms
  by (auto simp add: step_def as_float_def np_sin_number truediv_def Let_def)

lemma step_zero_py_any_x:
  assumes "fits_double (v M)" and "numpy_number alpha" and "fits_double (w_e M)"
    and "fits_double throttle" and "val (v M) = 0" and "is_py (v M)" and "is_py (w_e M)"
  shows "step M throttle alpha = Inl ZeroDivisionError"
  using assms
  by (auto simp add: step_def as_float_def np_sin_number truediv_def Let_def)

lemma step_returns_iff:
  "(\<exists>M'. step M throttle alpha = Inr M') \<longleftrightarrow>
     operands_ok M throttle alpha \<and> (val (v M) \<noteq> 0 \<or> \<not> is_py (v M) \<or> \<not> is_py (w_e M))"
proof
  assume "\<exists>M'. step M throttle alpha = Inr M'"
  then obtain M' where st: "step M throttle alpha = Inr M'" by blast
  have ok: "operands_ok M throttle alpha" by (rule step_Inr_operands [OF st])
  have "val (v M) \<noteq> 0 \<or> \<not> is_py (v M) \<or> \<not> is_py (w_e M)"
  proof (rule ccontr)
    assume "\<not> (val (v M) \<noteq> 0 \<or> \<not> is_py (v M) \<or> \<not> is_py (w_e M))"
    then have "step M throttle alpha = Inl ZeroDivisionError"
      using step_zero_py [OF ok] by blast
    with st show False by simp
  qed
  with ok show "operands_ok M throttle alpha
      \<and> (val (v M) \<noteq> 0 \<or> \<not> is_py (v M) \<or> \<not> is_py (w_e M))" by blast
next
  assume "operands_ok M throttle alpha
      \<and> (val (v M) \<noteq> 0 \<or> \<not> is_py (v M) \<or> \<not> is_py (w_e M))"
  then show "\<exists>M'. step M throttle alpha = Inr M'"
    using step_defined by blast
qed

lemma arange_nth: "i < length (arange stop dt) \<Longrightarrow> arange stop dt ! i = real i * dt"
  by (simp add: arange_def)

lemma constant_throttle_loop_done:
  "\<not> i < n \<Longrightarrow> constant_throttle_loop i n throttle alpha M vd = Inr (M, vd)"
  by (subst constant_throttle_loop.simps) simp

lemma constant_throttle_loop_iteration:
  "i < n \<Longrightarrow> constant_throttle_loop i n throttle alpha M vd =
     (case as_float (v M) of
        Inl e \<Rightarrow> Inl e
      | Inr model_v \<Rightarrow>
         (case step M throttle alpha of
            Inl e \<Rightarrow> Inl e
          | Inr M1 \<Rightarrow> constant_throttle_loop (Suc i) n throttle alpha M1 (vd[i := model_v])))"
  by (subst constant_throttle_loop.simps) (simp add: Let_def split: sum.split)

lemma ramp_loop_done:
  "\<not> i < length t_data \<Longrightarrow> ramp_loop i t_data M arrays = Inr (M, arrays)"
  by (subst ramp_loop.simps) simp

lemma ramp_loop_iteration:
  "i < length t_data \<Longrightarrow> ramp_loop i t_data M arrays =
     (case as_float (x M) of
        Inl e \<Rightarrow> Inl e
      | Inr model_x \<Rightarrow>
     (case as_float (v M) of
        Inl e \<Rightarrow> Inl e
      | Inr model_v \<Rightarrow>
     (let arrays1 = arrays\<lparr> alpha_a := (alpha_a arrays)[i := ramp_alpha (val (x M))],
            throttle_a := (throttle_a arrays)[i := ramp_throttle (t_data ! i)],
            x_data := (x_data arrays)[i := model_x],
            v_a := (v_a arrays)[i := model_v] \<rparr>
      in case step M (Np (throttle_a arrays1 ! i)) (Np (alpha_a arrays1 ! i)) of
           Inl e \<Rightarrow> Inl e
         | Inr M1 \<Rightarrow> ramp_loop (Suc i) t_data M1 arrays1)))"
  by (subst ramp_loop.simps) (simp add: Let_def split: sum.split)

lemma constant_throttle_loop_records:
  assumes "constant_throttle_model throttle alpha M0 i = Inr M"
    and "constant_throttle_loop i n throttle alpha M vd = Inr (Mf, vd')"
    and "length vd = n"
  shows "(\<forall>j<i. vd' ! j = vd ! j)
       \<and> (\<forall>k. i \<le> k \<longrightarrow> k < n \<longrightarrow>
            (\<exists>Mk. constant_throttle_model throttle alpha M0 k = Inr Mk \<and> vd' ! k = val (v Mk)))"
  using assms
proof (induction "n - i" arbitrary: i M vd)
  case 0
  then have "vd' = vd"
    by (simp add: constant_throttle_loop_done)
  with 0 show ?case by simp
next
  case (Suc d)
  then have lt: "i < n" by simp
  from Suc.prems(2) lt obtain M1 where
    st: "step M throttle alpha = Inr M1" and
    rest: "constant_throttle_loop (Suc i) n throttle alpha M1 (vd[i := val (v M)]) = Inr (Mf, vd')"
    by (auto simp add: constant_throttle_loop_iteration dest!: as_float_Inr split: sum.splits)
  have next_model: "constant_throttle_model throttle alpha M0 (Suc i) = Inr M1"
    using Suc.prems(1) st by simp
  have d: "d = n - Suc i" using Suc.hyps(2) by simp
  have len: "length (vd[i := val (v M)]) = n" using Suc.prems(3) by simp
  from Suc.hyps(1) [OF d next_model rest len]
  have old: "\<forall>j<Suc i. vd' ! j = vd[i := val (v M)] ! j"
    and new: "\<forall>k. Suc i \<le> k \<longrightarrow> k < n \<longrightarrow>
            (\<exists>Mk. constant_throttle_model throttle alpha M0 k = Inr Mk \<and> vd' ! k = val (v Mk))"
    by auto
  have here: "vd' ! i = val (v M)"
    using old lt Suc.prems(3) by simp
  have before: "\<forall>j<i. vd' ! j = vd ! j"
    using old by simp
  have from_here: "\<exists>Mk. constant_throttle_model throttle alpha M0 k = Inr Mk \<and> vd' ! k = val (v Mk)"
    if "i \<le> k" and "k < n" for k
  proof (cases "k = i")
    case True
    with here Suc.prems(1) show ?thesis by simp
  next
    case False
    with that have "Suc i \<le> k" by simp
    with new that(2) show ?thesis by blast
  qed
  from before from_here show ?case by blast
qed

lemma constant_throttle_loop_returns:
  assumes "reachable M" and "fits_double throttle" and "numpy_number alpha"
  shows "\<exists>Mf vd'. constant_throttle_loop i n throttle alpha M vd = Inr (Mf, vd')"
  using assms(1)
proof (induction "n - i" arbitrary: i M vd)
  case 0
  then show ?case
    by (simp add: constant_throttle_loop_done)
next
  case (Suc d)
  from reachable_step_defined [OF Suc.prems assms(2,3)] obtain M1 where
    st: "step M throttle alpha = Inr M1" by blast
  have fits: "as_float (v M) = Inr (val (v M))"
    using reachable_invariant [OF Suc.prems] by (simp add: as_float_fits)
  have "reachable M1"
    by (rule reachable.after_step [OF Suc.prems st])
  moreover have "d = n - Suc i" using Suc.hyps(2) by simp
  ultimately have "\<exists>Mf vd'. constant_throttle_loop (Suc i) n throttle alpha M1 (vd[i := val (v M)]) = Inr (Mf, vd')"
    using Suc.hyps(1) by blast
  then show ?case
    using st fits Suc.hyps(2) by (simp add: constant_throttle_loop_iteration)
qed

lemma ramp_loop_records:
  assumes "ramp_model t_data M0 i = Inr M"
    and "ramp_loop i t_data M arrays = Inr (Mf, arrays')"
    and "arrays_of_length (length t_data) arrays"
  shows "(\<forall>j<i. alpha_a arrays' ! j = alpha_a arrays ! j \<and> throttle_a arrays' ! j = throttle_a arrays ! j
               \<and> x_data arrays' ! j = x_data arrays ! j \<and> v_a arrays' ! j = v_a arrays ! j)
       \<and> (\<forall>k. i \<le> k \<longrightarrow> k < length t_data \<longrightarrow>
            (\<exists>Mk. ramp_model t_data M0 k = Inr Mk
               \<and> alpha_a arrays' ! k = ramp_alpha (val (x Mk))
               \<and> throttle_a arrays' ! k = ramp_throttle (t_data ! k)
               \<and> x_data arrays' ! k = val (x Mk)
               \<and> v_a arrays' ! k = val (v Mk)))"
  using assms
proof (induction "length t_data - i" arbitrary: i M arrays)
  case 0
  then have "arrays' = arrays"
    by (simp add: ramp_loop_done)
  with 0 show ?case by simp
next
  case (Suc d)
  define arrays1 where "arrays1 =
    arrays\<lparr> alpha_a := (alpha_a arrays)[i := ramp_alpha (val (x M))],
            throttle_a := (throttle_a arrays)[i := ramp_throttle (t_data ! i)],
            x_data := (x_data arrays)[i := val (x M)],
            v_a := (v_a arrays)[i := val (v M)] \<rparr>"
  from Suc have lt: "i < length t_data" by simp
  have len1: "arrays_of_length (length t_data) arrays1"
    using Suc.prems(3) by (simp add: arrays1_def arrays_of_length_def)
  have fed: "throttle_a arrays1 ! i = ramp_throttle (t_data ! i)"
            "alpha_a arrays1 ! i = ramp_alpha (val (x M))"
            "x_data arrays1 ! i = val (x M)" "v_a arrays1 ! i = val (v M)"
    using Suc.prems(3) lt by (simp_all add: arrays1_def arrays_of_length_def)
  from Suc.prems(2) lt obtain M1 where
    st: "step M (Np (throttle_a arrays1 ! i)) (Np (alpha_a arrays1 ! i)) = Inr M1" and
    rest: "ramp_loop (Suc i) t_data M1 arrays1 = Inr (Mf, arrays')"
    by (auto simp add: ramp_loop_iteration Let_def arrays1_def
        dest!: as_float_Inr split: sum.splits)
  have next_model: "ramp_model t_data M0 (Suc i) = Inr M1"
    using Suc.prems(1) st fed by simp
  have d: "d = length t_data - Suc i" using Suc.hyps(2) by simp
  from Suc.hyps(1) [OF d next_model rest len1]
  have old: "\<forall>j<Suc i. alpha_a arrays' ! j = alpha_a arrays1 ! j \<and> throttle_a arrays' ! j = throttle_a arrays1 ! j
               \<and> x_data arrays' ! j = x_data arrays1 ! j \<and> v_a arrays' ! j = v_a arrays1 ! j"
    and new: "\<forall>k. Suc i \<le> k \<longrightarrow> k < length t_data \<longrightarrow>
            (\<exists>Mk. ramp_model t_data M0 k = Inr Mk
               \<and> alpha_a arrays' ! k = ramp_alpha (val (x Mk))
               \<and> throttle_a arrays' ! k = ramp_throttle (t_data ! k)
               \<and> x_data arrays' ! k = val (x Mk)
               \<and> v_a arrays' ! k = val (v Mk))"
    by auto
  have here: "alpha_a arrays' ! i = ramp_alpha (val (x M))"
      "throttle_a arrays' ! i = ramp_throttle (t_data ! i)"
      "x_data arrays' ! i = val (x M)" "v_a arrays' ! i = val (v M)"
    using old fed by simp_all
  have before: "\<forall>j<i. alpha_a arrays' ! j = alpha_a arrays ! j \<and> throttle_a arrays' ! j = throttle_a arrays ! j
               \<and> x_data arrays' ! j = x_data arrays ! j \<and> v_a arrays' ! j = v_a arrays ! j"
    using old by (simp add: arrays1_def)
  have from_here: "\<exists>Mk. ramp_model t_data M0 k = Inr Mk
               \<and> alpha_a arrays' ! k = ramp_alpha (val (x Mk))
               \<and> throttle_a arrays' ! k = ramp_throttle (t_data ! k)
               \<and> x_data arrays' ! k = val (x Mk)
               \<and> v_a arrays' ! k = val (v Mk)"
    if "i \<le> k" and "k < length t_data" for k
  proof (cases "k = i")
    case True
    with here Suc.prems(1) show ?thesis by simp
  next
    case False
    with that have "Suc i \<le> k" by simp
    with new that(2) show ?thesis by blast
  qed
  from before from_here show ?case by blast
qed

lemma ramp_loop_returns:
  assumes "reachable M"
  shows "\<exists>Mf arrays'. ramp_loop i t_data M arrays = Inr (Mf, arrays')"
  using assms
proof (induction "length t_data - i" arbitrary: i M arrays)
  case 0
  then show ?case
    by (simp add: ramp_loop_done)
next
  case (Suc d)
  define arrays1 where "arrays1 =
    arrays\<lparr> alpha_a := (alpha_a arrays)[i := ramp_alpha (val (x M))],
            throttle_a := (throttle_a arrays)[i := ramp_throttle (t_data ! i)],
            x_data := (x_data arrays)[i := val (x M)],
            v_a := (v_a arrays)[i := val (v M)] \<rparr>"
  have "fits_double (Np (throttle_a arrays1 ! i))" and "numpy_number (Np (alpha_a arrays1 ! i))"
    by simp_all
  from reachable_step_defined [OF Suc.prems this] obtain M1 where
    st: "step M (Np (throttle_a arrays1 ! i)) (Np (alpha_a arrays1 ! i)) = Inr M1" by blast
  have fits: "as_float (x M) = Inr (val (x M))" "as_float (v M) = Inr (val (v M))"
    using reachable_invariant [OF Suc.prems] by (simp_all add: as_float_fits)
  have "reachable M1"
    by (rule reachable.after_step [OF Suc.prems st])
  moreover have "d = length t_data - Suc i" using Suc.hyps(2) by simp
  ultimately have "\<exists>Mf arrays'. ramp_loop (Suc i) t_data M1 arrays1 = Inr (Mf, arrays')"
    using Suc.hyps(1) by blast
  then show ?case
    using st fits Suc.hyps(2) by (simp add: ramp_loop_iteration Let_def arrays1_def)
qed

lemma ramp_loop_sample:
  assumes "reachable M" and "arrays_of_length (length t_data) arrays" and "i < length t_data"
  shows "\<exists>Mf arrays' Mi. ramp_loop 0 t_data M arrays = Inr (Mf, arrays')
           \<and> ramp_model t_data M i = Inr Mi
           \<and> alpha_a arrays' ! i = ramp_alpha (val (x Mi))
           \<and> throttle_a arrays' ! i = ramp_throttle (t_data ! i)
           \<and> x_data arrays' ! i = val (x Mi)
           \<and> v_a arrays' ! i = val (v Mi)"
proof -
  from ramp_loop_returns [OF assms(1)] obtain Mf arrays' where
    run: "ramp_loop 0 t_data M arrays = Inr (Mf, arrays')" by blast
  have start: "ramp_model t_data M 0 = Inr M" by simp
  from ramp_loop_records [OF start run assms(2)] assms(3) run
  show ?thesis by blast
qed

lemma constant_throttle_loop_sample:
  assumes "reachable M" and "fits_double throttle" and "numpy_number alpha"
    and "length vd = n" and "i < n"
  shows "\<exists>Mf vd' Mi. constant_throttle_loop 0 n throttle alpha M vd = Inr (Mf, vd')
           \<and> constant_throttle_model throttle alpha M i = Inr Mi
           \<and> vd' ! i = val (v Mi)"
proof -
  from constant_throttle_loop_returns [OF assms(1,2,3)] obtain Mf vd' where
    run: "constant_throttle_loop 0 n throttle alpha M vd = Inr (Mf, vd')" by blast
  have start: "constant_throttle_model throttle alpha M 0 = Inr M" by simp
  from constant_throttle_loop_records [OF start run assms(4)] assms(5) run
  show ?thesis by blast
qed

text \<open>
  The two cells of the notebook return, and their arrays hold at each index the state before
  the step of that index and the time of that index.
\<close>

lemma length_arange_cells:
  "length (arange 100 0.01) = 10000" "length (arange 20 0.01) = 2000"
  by (simp_all add: arange_def)

lemma constant_throttle_cell_samples:
  assumes "i < 10000"
  shows "\<exists>Mf v_data' Mi. constant_throttle_cell = Inr (Mf, v_data')
           \<and> constant_throttle_model (PyFloat 0.2) (PyInt 0) Vehicle_init i = Inr Mi
           \<and> v_data' ! i = val (v Mi)
           \<and> arange 100 0.01 ! i = real i * 0.01"
proof -
  have len: "length (zeros_like (arange 100 0.01)) = length (arange 100 0.01)"
    by (simp add: zeros_like_def)
  have i: "i < length (arange 100 0.01)"
    using assms by (simp only: length_arange_cells)
  have inputs: "fits_double (PyFloat 0.2)" "numpy_number (PyInt 0)"
    by simp_all
  from constant_throttle_loop_sample [OF reachable.construct inputs len i] arange_nth [OF i]
  show ?thesis
    by (simp add: constant_throttle_cell_def Let_def)
qed

lemma ramp_cell_samples:
  assumes "reachable M" and "i < 2000"
  shows "\<exists>Mf arrays' Mi. ramp_cell M = Inr (Mf, arrays')
           \<and> ramp_model (arange 20 0.01) Vehicle_init i = Inr Mi
           \<and> alpha_a arrays' ! i = ramp_alpha (val (x Mi))
           \<and> x_data arrays' ! i = val (x Mi)
           \<and> v_a arrays' ! i = val (v Mi)
           \<and> arange 20 0.01 ! i = real i * 0.01"
proof -
  have start: "reset M = Vehicle_init"
    by (rule reset_of_default_parameters [OF reachable_parameters [OF assms(1)]])
  have len: "arrays_of_length (length (arange 20 0.01))
      \<lparr> alpha_a = zeros_like (arange 20 0.01), throttle_a = zeros_like (arange 20 0.01),
        x_data = zeros_like (arange 20 0.01), v_a = zeros_like (arange 20 0.01) \<rparr>"
    by (simp add: arrays_of_length_def zeros_like_def)
  have i: "i < length (arange 20 0.01)"
    using assms(2) by (simp only: length_arange_cells)
  from ramp_loop_sample [OF reachable.construct len i] arange_nth [OF i]
  show ?thesis
    by (simp add: ramp_cell_def Let_def start) blast
qed

text \<open>
  Two Python integers: \<open>10 ^ 400\<close> is beyond the range of a double, and with it for the
  throttle or for the velocity \<^verbatim>\<open>step\<close> raises \<^verbatim>\<open>OverflowError\<close>.
\<close>

lemma two_pow_1024_le_ten_pow_400: "(2 :: int) ^ 1024 \<le> 10 ^ 400"
proof -
  have "(2 :: int) ^ 1024 \<le> 2 ^ 1200"
    by (rule power_increasing) simp_all
  also have "\<dots> = (2 ^ 3) ^ 400"
    by (simp only: power_mult [symmetric]) simp
  also have "\<dots> \<le> (10 :: int) ^ 400"
    by (rule power_mono) simp_all
  finally show ?thesis .
qed

lemma ten_pow_400_too_large: "\<not> fits_double (PyInt (10 ^ 400))"
proof -
  have "(0 :: int) \<le> 2 ^ 970" by (rule zero_le_power) simp
  with two_pow_1024_le_ten_pow_400 have "(2 :: int) ^ 1024 - 2 ^ 970 \<le> \<bar>10 ^ 400\<bar>"
    by linarith
  then show ?thesis
    by (simp only: fits_double.simps not_less)
qed

lemma v_of_update: "v (M\<lparr> v := p \<rparr>) = p"
  by simp

lemma constructed_operands:
  "fits_double (v Vehicle_init)" "fits_double (w_e Vehicle_init)" "fits_double (x Vehicle_init)"
  "is_py (v Vehicle_init)" "is_py (w_e Vehicle_init)" "val (v Vehicle_init) \<noteq> 0"
  "params_ok Vehicle_init"
  by (simp_all add: Vehicle_init_def params_ok_def)

lemma step_throttle_ten_pow_400:
  "step Vehicle_init (PyInt (10 ^ 400)) (PyInt 0) = Inl OverflowError"
proof -
  have "numpy_number (PyInt 0)" by simp
  with constructed_operands(1) ten_pow_400_too_large show ?thesis
    by (intro step_overflow_w_e_throttle) blast+
qed

lemma step_v_ten_pow_400:
  "step (Vehicle_init\<lparr> v := PyInt (10 ^ 400) \<rparr>) (PyFloat 0.2) (PyInt 0) = Inl OverflowError"
proof -
  have "\<not> fits_double (v (Vehicle_init\<lparr> v := PyInt (10 ^ 400) \<rparr>))"
    unfolding v_of_update by (rule ten_pow_400_too_large)
  then show ?thesis
    by (rule step_overflow_v)
qed

text \<open>
  The bounds of the two conversions, and the order in which \<^verbatim>\<open>step\<close> reaches its
  exceptions: the conversion of the throttle and the refusal of the angle come before the
  division, the conversion of \<^verbatim>\<open>self.x\<close> after it.
\<close>

lemma conversion_thresholds:
  "fits_double (PyInt (2 ^ 1024 - 2 ^ 970 - 1))" "\<not> fits_double (PyInt (2 ^ 1024 - 2 ^ 970))"
  "fits_double (PyInt (- (2 ^ 1024 - 2 ^ 970 - 1)))" "\<not> fits_double (PyInt (- (2 ^ 1024 - 2 ^ 970)))"
  "numpy_number (PyInt (2 ^ 64 - 1))" "\<not> numpy_number (PyInt (2 ^ 64))"
  "numpy_number (PyInt (- (2 ^ 63)))" "\<not> numpy_number (PyInt (- (2 ^ 63) - 1))"
  by simp_all

lemma x_of_update: "x (M\<lparr> x := p \<rparr>) = p"
  by simp

lemma x_update_others: "v (M\<lparr> x := p \<rparr>) = v M" "w_e (M\<lparr> x := p \<rparr>) = w_e M"
  by simp_all

lemma error_order:
  "step (Vehicle_init\<lparr> v := PyInt 0 \<rparr>) (PyInt (10 ^ 400)) (PyInt 0) = Inl OverflowError"
  "step (Vehicle_init\<lparr> v := PyInt 0 \<rparr>) (PyInt (10 ^ 400)) (PyInt (2 ^ 64)) = Inl NumpyTypeError"
  "step (Vehicle_init\<lparr> v := PyInt 0, x := PyInt (10 ^ 400) \<rparr>) (PyFloat 0.2) (PyInt 0)
     = Inl ZeroDivisionError"
  "step (Vehicle_init\<lparr> x := PyInt (10 ^ 400) \<rparr>) (PyFloat 0.2) (PyInt 0) = Inl OverflowError"
proof -
  have v0: "fits_double (v (Vehicle_init\<lparr> v := PyInt 0 \<rparr>))"
    "fits_double (w_e (Vehicle_init\<lparr> v := PyInt 0 \<rparr>))"
    "val (v (Vehicle_init\<lparr> v := PyInt 0 \<rparr>)) = 0" "is_py (v (Vehicle_init\<lparr> v := PyInt 0 \<rparr>))"
    "is_py (w_e (Vehicle_init\<lparr> v := PyInt 0 \<rparr>))"
    by (simp_all add: Vehicle_init_def)
  have n0: "numpy_number (PyInt 0)" and n64: "\<not> numpy_number (PyInt (2 ^ 64))"
    and f02: "fits_double (PyFloat 0.2)"
    by simp_all
  show "step (Vehicle_init\<lparr> v := PyInt 0 \<rparr>) (PyInt (10 ^ 400)) (PyInt 0) = Inl OverflowError"
    using v0(1) n0 ten_pow_400_too_large by (intro step_overflow_w_e_throttle) blast+
  show "step (Vehicle_init\<lparr> v := PyInt 0 \<rparr>) (PyInt (10 ^ 400)) (PyInt (2 ^ 64))
      = Inl NumpyTypeError"
    using v0(1) n64 by (rule step_sin_refused)
  have vx: "fits_double (v (Vehicle_init\<lparr> v := PyInt 0, x := PyInt (10 ^ 400) \<rparr>))"
    "fits_double (w_e (Vehicle_init\<lparr> v := PyInt 0, x := PyInt (10 ^ 400) \<rparr>))"
    "val (v (Vehicle_init\<lparr> v := PyInt 0, x := PyInt (10 ^ 400) \<rparr>)) = 0"
    "is_py (v (Vehicle_init\<lparr> v := PyInt 0, x := PyInt (10 ^ 400) \<rparr>))"
    "is_py (w_e (Vehicle_init\<lparr> v := PyInt 0, x := PyInt (10 ^ 400) \<rparr>))"
    unfolding x_update_others using v0 by blast+
  show "step (Vehicle_init\<lparr> v := PyInt 0, x := PyInt (10 ^ 400) \<rparr>) (PyFloat 0.2) (PyInt 0)
     = Inl ZeroDivisionError"
    using vx n0 f02 by (intro step_zero_py_any_x)
  have x1: "fits_double (v (Vehicle_init\<lparr> x := PyInt (10 ^ 400) \<rparr>))"
    "fits_double (w_e (Vehicle_init\<lparr> x := PyInt (10 ^ 400) \<rparr>))"
    "val (v (Vehicle_init\<lparr> x := PyInt (10 ^ 400) \<rparr>)) \<noteq> 0"
    unfolding x_update_others using constructed_operands by blast+
  have x2: "x (Vehicle_init\<lparr> x := PyInt (10 ^ 400) \<rparr>) = PyInt (10 ^ 400)"
    by (rule x_of_update)
  have x3: "\<not> fits_double (x (Vehicle_init\<lparr> x := PyInt (10 ^ 400) \<rparr>))"
    unfolding x2 by (rule ten_pow_400_too_large)
  show "step (Vehicle_init\<lparr> x := PyInt (10 ^ 400) \<rparr>) (PyFloat 0.2) (PyInt 0) = Inl OverflowError"
    using x1(1) n0 x1(2) f02 _ x3 by (rule step_overflow_x) (use x1(3) in blast)
qed

section \<open>The step\<close>



text \<open>
  C2. The position update of \<^verbatim>\<open>step\<close> uses the velocity the same call has just stored:
  the new position is \<open>x + (v + a' * dt) * dt\<close>, with \<open>a'\<close> the acceleration of that call,
  and differs from \<open>x + v * dt\<close> whenever \<open>a' * dt * dt\<close> is not zero.
\<close>

theorem position_uses_updated_velocity:
  assumes "params_ok M" and "step M throttle alpha = Inr M'"
  shows "val (x M') = val (x M) + (val (v M) + val (a M') * sample_time M) * sample_time M
       \<and> val (v M') = val (v M) + val (a M') * sample_time M
       \<and> (val (a M') * sample_time M * sample_time M \<noteq> 0
            \<longrightarrow> val (x M') \<noteq> val (x M) + val (v M) * sample_time M)"
proof -
  from step_Inr_fields [OF assms(2)]
  have xv: "x M' = Np (val (x M) + val (v M') * sample_time M)"
    and va: "v M' = Np (val (v M) + val (a M') * sample_time M)"
    by auto
  have 1: "val (v M') = val (v M) + val (a M') * sample_time M"
    using va by simp
  have 2: "val (x M') = val (x M) + (val (v M) + val (a M') * sample_time M) * sample_time M"
    using xv 1 by simp
  have 3: "val (x M') \<noteq> val (x M) + val (v M) * sample_time M"
    if "val (a M') * sample_time M * sample_time M \<noteq> 0"
    using that 2 by (simp add: algebra_simps)
  from 1 2 3 show ?thesis by blast
qed

theorem position_uses_updated_velocity_witness:
  "params_ok Vehicle_init
   \<and> step Vehicle_init (PyFloat 0.2) (PyInt 0) =
       Inr (Vehicle_init\<lparr> a := Np 4.982975, v := Np 5.04982975, x := Np 0.0504982975,
                          w_e_dot := Np 7.802475, w_e := Np 100.07802475 \<rparr>)
   \<and> (0.0504982975 :: real) = 0 + (5 + 4.982975 * 0.01) * 0.01
   \<and> (0.0504982975 :: real) \<noteq> 0 + 5 * 0.01"
proof -
  have h1: "params_ok Vehicle_init" by (simp add: Vehicle_init_def params_ok_def)
  note h2 = step_first_example
  show ?thesis
    using h1 h2 position_uses_updated_velocity [OF h1 h2]
    by (simp add: Vehicle_init_def)
qed

text \<open>
  C3. The tire force is \<open>c * s\<close> when \<open>\<bar>s\<bar> < 1\<close> and exactly \<open>F_max\<close> when \<open>\<bar>s\<bar> \<ge> 1\<close>;
  \<open>F_max\<close> is 10000 after construction. For \<open>v \<noteq> 0\<close> the acceleration \<^verbatim>\<open>step\<close> stores
  is computed from this force at the slip ratio \<open>s = (GR * w_e * r_e - v) / v\<close>.
\<close>

theorem tire_force_rule:
  "(\<bar>s\<bar> < 1 \<longrightarrow> tire_force M (Finite s) = c M * s)
   \<and> (\<bar>s\<bar> \<ge> 1 \<longrightarrow> tire_force M (Finite s) = F_max M)
   \<and> (val (v M) \<noteq> 0 \<and> params_ok M \<and> operands_ok M throttle alpha \<longrightarrow>
        (\<exists>M'. step M throttle alpha = Inr M'
           \<and> val (a M') =
               (tire_force M (Finite ((GR M * val (w_e M) * r_e M - val (v M)) / val (v M)))
                - (c_a M * (val (v M))\<^sup>2 + c_r1 M * val (v M) + m M * g M * sin (val alpha)))
               / m M))
   \<and> F_max Vehicle_init = 10000"
  using step_acceleration [of M throttle alpha]
  by (simp add: tire_force_Finite Vehicle_init_def)

theorem tire_force_rule_witness:
  "\<bar>1.1 :: real\<bar> \<ge> 1 \<and> tire_force Vehicle_init (Finite 1.1) = 10000
   \<and> \<bar>0.5 :: real\<bar> < 1 \<and> tire_force Vehicle_init (Finite 0.5) = 5000
   \<and> val (v Vehicle_init) \<noteq> 0 \<and> params_ok Vehicle_init
   \<and> operands_ok Vehicle_init (PyFloat 0.2) (PyInt 0)
   \<and> (\<exists>M'. step Vehicle_init (PyFloat 0.2) (PyInt 0) = Inr M'
          \<and> val (a M') = (10000 - 34.05) / 2000)"
  using tire_force_rule [of "1.1" Vehicle_init "PyFloat 0.2" "PyInt 0"]
    tire_force_rule [of "0.5" Vehicle_init "PyFloat 0.2" "PyInt 0"]
  by (simp add: Vehicle_init_def params_ok_def operands_ok_def)

text \<open>
  C10. The saturated tire force has the same sign in both directions: for \<open>s \<le> -1\<close>, as for
  \<open>s \<ge> 1\<close>, the force is \<open>+F_max\<close>, and \<^verbatim>\<open>step\<close> uses it in a state whose slip ratio is at
  most \<open>-1\<close>. From the right of \<open>-1\<close> the force tends to \<open>-c\<close>, so the force as a function
  of \<open>s\<close> is not continuous at \<open>-1\<close> unless \<open>F_max = -c\<close>; with the constructor's parameters
  it jumps from \<open>-10000\<close> to \<open>10000\<close>.
\<close>

theorem saturation_same_sign:
  "(s \<le> - 1 \<or> 1 \<le> s \<longrightarrow> tire_force M (Finite s) = F_max M)
   \<and> (val (v M) \<noteq> 0 \<and> params_ok M \<and> operands_ok M throttle alpha
        \<and> (GR M * val (w_e M) * r_e M - val (v M)) / val (v M) \<le> - 1 \<longrightarrow>
        (\<exists>M'. step M throttle alpha = Inr M'
           \<and> val (a M') =
               (F_max M - (c_a M * (val (v M))\<^sup>2 + c_r1 M * val (v M)
                            + m M * g M * sin (val alpha)))
               / m M))
   \<and> ((\<lambda>s. tire_force M (Finite s)) \<longlongrightarrow> - c M) (at_right (- 1))
   \<and> (F_max M \<noteq> - c M \<longrightarrow> \<not> isCont (\<lambda>s. tire_force M (Finite s)) (- 1))
   \<and> F_max Vehicle_init = 10000 \<and> c Vehicle_init = 10000"
proof -
  have 1: "tire_force M (Finite s) = F_max M" if "s \<le> - 1 \<or> 1 \<le> s" for s
    using that by (auto simp add: tire_force_Finite)
  have 2: "\<exists>M'. step M throttle alpha = Inr M'
           \<and> val (a M') =
               (F_max M - (c_a M * (val (v M))\<^sup>2 + c_r1 M * val (v M)
                            + m M * g M * sin (val alpha)))
               / m M"
    if "val (v M) \<noteq> 0" and "operands_ok M throttle alpha"
      and "(GR M * val (w_e M) * r_e M - val (v M)) / val (v M) \<le> - 1"
    using step_acceleration [OF that(1,2)]
      1 [of "(GR M * val (w_e M) * r_e M - val (v M)) / val (v M)"] that(3)
    by simp
  show ?thesis
    using 1 [of s] 2 tire_force_right_limit [of M] tire_force_jump [of M]
    by (simp add: Vehicle_init_def)
qed

theorem saturation_same_sign_witness:
  "(- 1 :: real) \<le> - 1
   \<and> tire_force (Vehicle_init\<lparr> w_e := PyInt 0 \<rparr>) (Finite (- 1)) = 10000
   \<and> val (v (Vehicle_init\<lparr> w_e := PyInt 0 \<rparr>)) \<noteq> 0
   \<and> params_ok (Vehicle_init\<lparr> w_e := PyInt 0 \<rparr>)
   \<and> operands_ok (Vehicle_init\<lparr> w_e := PyInt 0 \<rparr>) (PyFloat 0.2) (PyInt 0)
   \<and> (0.35 * 0 * 0.3 - 5) / 5 \<le> (- 1 :: real)
   \<and> (\<exists>M'. step (Vehicle_init\<lparr> w_e := PyInt 0 \<rparr>) (PyFloat 0.2) (PyInt 0) = Inr M'
          \<and> val (a M') = (10000 - 34.05) / 2000)
   \<and> \<not> isCont (\<lambda>s. tire_force (Vehicle_init\<lparr> w_e := PyInt 0 \<rparr>) (Finite s)) (- 1)"
  using saturation_same_sign [of "- 1" "Vehicle_init\<lparr> w_e := PyInt 0 \<rparr>" "PyFloat 0.2" "PyInt 0"]
  by (simp add: Vehicle_init_def params_ok_def operands_ok_def)

text \<open>
  C6. As stated, that \<^verbatim>\<open>step\<close> raises no exception for any finite numeric input, with the
  division by \<open>v\<close> its only partial operation and its result at \<open>v = 0\<close> propagating, the
  claim fails in two ways: a division of Python scalars by zero raises, and so does the
  conversion of a Python integer beyond the range of a double. Amended, for inputs and
  state variables that are Python integers, Python floats or \<^verbatim>\<open>numpy.float64\<close> values:
  \<^verbatim>\<open>step\<close> returns exactly when, first, no Python integer among \<open>v\<close>, \<open>w_e\<close>, \<open>x\<close> and
  \<open>throttle\<close> is beyond the range of a double and \<open>alpha\<close> is a float or a Python integer that
  fits a 64-bit integer of numpy, and, second, \<open>v \<noteq> 0\<close>, or \<open>v = 0\<close> with \<open>v\<close> or \<open>w_e\<close> a
  \<^verbatim>\<open>numpy.float64\<close>. When \<open>v = 0\<close> is held as a \<^verbatim>\<open>numpy.float64\<close>, as every value stored by
  \<^verbatim>\<open>step\<close> is, the slip ratio is not finite, \<^verbatim>\<open>abs(s) < 1\<close> is false, the tire force is
  \<open>F_max\<close> and \<^verbatim>\<open>step\<close> returns with a finite acceleration. When \<open>v = 0\<close> and both \<open>v\<close> and
  \<open>w_e\<close> are Python scalars, the division raises \<^verbatim>\<open>ZeroDivisionError\<close>. A Python integer
  beyond the range of a double for \<open>v\<close>, \<open>w_e\<close> or \<open>throttle\<close> raises \<^verbatim>\<open>OverflowError\<close>, before
  the division. From every state reached from the constructor by \<^verbatim>\<open>step\<close> and \<^verbatim>\<open>reset\<close>,
  \<^verbatim>\<open>step\<close> returns for every throttle in the range of a double and every angle that numpy
  takes.
\<close>

theorem step_exceptions:
  "((\<exists>M'. step M throttle alpha = Inr M') \<longleftrightarrow>
       operands_ok M throttle alpha
       \<and> (val (v M) \<noteq> 0 \<or> \<not> is_py (v M) \<or> \<not> is_py (w_e M)))
   \<and> (operands_ok M throttle alpha \<and> val (v M) = 0
        \<and> (\<not> is_py (v M) \<or> \<not> is_py (w_e M)) \<and> params_ok M \<longrightarrow>
        (\<exists>M'. step M throttle alpha = Inr M'
           \<and> val (a M') =
               (F_max M - (c_a M * (val (v M))\<^sup>2 + c_r1 M * val (v M)
                            + m M * g M * sin (val alpha)))
               / m M))
   \<and> (fits_double (v M) \<and> numpy_number alpha \<and> fits_double (w_e M) \<and> fits_double throttle
        \<and> val (v M) = 0 \<and> is_py (v M) \<and> is_py (w_e M) \<longrightarrow>
        step M throttle alpha = Inl ZeroDivisionError)
   \<and> (\<not> fits_double (v M) \<longrightarrow> step M throttle alpha = Inl OverflowError)
   \<and> (fits_double (v M) \<and> numpy_number alpha
        \<and> (\<not> fits_double (w_e M) \<or> \<not> fits_double throttle) \<longrightarrow>
        step M throttle alpha = Inl OverflowError)
   \<and> (reachable M \<and> fits_double throttle \<and> numpy_number alpha \<longrightarrow>
        (\<exists>M'. step M throttle alpha = Inr M'))"
  using step_returns_iff [of M throttle alpha] step_zero_np [of M throttle alpha]
    step_zero_py_any_x [of M alpha throttle] step_overflow_v [of M throttle alpha]
    step_overflow_w_e_throttle [of M alpha throttle]
    reachable_step_defined [of M throttle alpha]
  by blast

theorem step_exceptions_witness:
  "operands_ok Vehicle_init (PyFloat 0.2) (PyInt 0) \<and> val (v Vehicle_init) \<noteq> 0
   \<and> reachable Vehicle_init \<and> fits_double (PyFloat 0.2) \<and> numpy_number (PyInt 0)
   \<and> (\<exists>M'. step Vehicle_init (PyFloat 0.2) (PyInt 0) = Inr M')
   \<and> operands_ok (Vehicle_init\<lparr> v := Np 0 \<rparr>) (PyFloat 0.2) (PyInt 0)
   \<and> val (v (Vehicle_init\<lparr> v := Np 0 \<rparr>)) = 0 \<and> \<not> is_py (v (Vehicle_init\<lparr> v := Np 0 \<rparr>))
   \<and> params_ok (Vehicle_init\<lparr> v := Np 0 \<rparr>)
   \<and> (\<exists>M'. step (Vehicle_init\<lparr> v := Np 0 \<rparr>) (PyFloat 0.2) (PyInt 0) = Inr M'
          \<and> val (a M') = 5)
   \<and> val (v (Vehicle_init\<lparr> v := PyInt 0 \<rparr>)) = 0 \<and> is_py (v (Vehicle_init\<lparr> v := PyInt 0 \<rparr>))
   \<and> is_py (w_e (Vehicle_init\<lparr> v := PyInt 0 \<rparr>))
   \<and> step (Vehicle_init\<lparr> v := PyInt 0 \<rparr>) (PyFloat 0.2) (PyInt 0) = Inl ZeroDivisionError
   \<and> \<not> fits_double (PyInt (10 ^ 400))
   \<and> step Vehicle_init (PyInt (10 ^ 400)) (PyInt 0) = Inl OverflowError
   \<and> \<not> fits_double (v (Vehicle_init\<lparr> v := PyInt (10 ^ 400) \<rparr>))
   \<and> step (Vehicle_init\<lparr> v := PyInt (10 ^ 400) \<rparr>) (PyFloat 0.2) (PyInt 0)
       = Inl OverflowError"
proof -
  have ok1: "operands_ok Vehicle_init (PyFloat 0.2) (PyInt 0)"
    by (simp add: operands_ok_def Vehicle_init_def)
  have inputs: "fits_double (PyFloat 0.2)" "numpy_number (PyInt 0)"
    by simp_all
  have returns: "\<exists>M'. step Vehicle_init (PyFloat 0.2) (PyInt 0) = Inr M'"
    using step_exceptions [of Vehicle_init "PyFloat 0.2" "PyInt 0"]
      reachable.construct inputs by blast
  have ok2: "operands_ok (Vehicle_init\<lparr> v := Np 0 \<rparr>) (PyFloat 0.2) (PyInt 0)"
    "val (v (Vehicle_init\<lparr> v := Np 0 \<rparr>)) = 0" "\<not> is_py (v (Vehicle_init\<lparr> v := Np 0 \<rparr>))"
    "params_ok (Vehicle_init\<lparr> v := Np 0 \<rparr>)"
    by (simp_all add: operands_ok_def Vehicle_init_def params_ok_def)
  have "\<exists>M'. step (Vehicle_init\<lparr> v := Np 0 \<rparr>) (PyFloat 0.2) (PyInt 0) = Inr M'
          \<and> val (a M') =
              (F_max (Vehicle_init\<lparr> v := Np 0 \<rparr>)
               - (c_a (Vehicle_init\<lparr> v := Np 0 \<rparr>) * (val (v (Vehicle_init\<lparr> v := Np 0 \<rparr>)))\<^sup>2
                  + c_r1 (Vehicle_init\<lparr> v := Np 0 \<rparr>) * val (v (Vehicle_init\<lparr> v := Np 0 \<rparr>))
                  + m (Vehicle_init\<lparr> v := Np 0 \<rparr>) * g (Vehicle_init\<lparr> v := Np 0 \<rparr>)
                      * sin (val (PyInt 0))))
              / m (Vehicle_init\<lparr> v := Np 0 \<rparr>)"
    using step_exceptions [of "Vehicle_init\<lparr> v := Np 0 \<rparr>" "PyFloat 0.2" "PyInt 0"] ok2
    by blast
  then have saturated: "\<exists>M'. step (Vehicle_init\<lparr> v := Np 0 \<rparr>) (PyFloat 0.2) (PyInt 0) = Inr M'
          \<and> val (a M') = 5"
    by (simp add: Vehicle_init_def)
  have zero: "val (v (Vehicle_init\<lparr> v := PyInt 0 \<rparr>)) = 0"
    "is_py (v (Vehicle_init\<lparr> v := PyInt 0 \<rparr>))" "is_py (w_e (Vehicle_init\<lparr> v := PyInt 0 \<rparr>))"
    "fits_double (v (Vehicle_init\<lparr> v := PyInt 0 \<rparr>))"
    "fits_double (w_e (Vehicle_init\<lparr> v := PyInt 0 \<rparr>))"
    by (simp_all add: Vehicle_init_def)
  have raises: "step (Vehicle_init\<lparr> v := PyInt 0 \<rparr>) (PyFloat 0.2) (PyInt 0)
      = Inl ZeroDivisionError"
    using step_exceptions [of "Vehicle_init\<lparr> v := PyInt 0 \<rparr>" "PyFloat 0.2" "PyInt 0"]
      zero inputs by blast
  have overflow: "step Vehicle_init (PyInt (10 ^ 400)) (PyInt 0) = Inl OverflowError"
    using step_exceptions [of Vehicle_init "PyInt (10 ^ 400)" "PyInt 0"]
      constructed_operands(1) inputs(2) ten_pow_400_too_large by blast
  have big_v: "\<not> fits_double (v (Vehicle_init\<lparr> v := PyInt (10 ^ 400) \<rparr>))"
    unfolding v_of_update by (rule ten_pow_400_too_large)
  have overflow_v: "step (Vehicle_init\<lparr> v := PyInt (10 ^ 400) \<rparr>) (PyFloat 0.2) (PyInt 0)
      = Inl OverflowError"
    using step_exceptions [of "Vehicle_init\<lparr> v := PyInt (10 ^ 400) \<rparr>" "PyFloat 0.2" "PyInt 0"]
      big_v by blast
  from ok1 constructed_operands(6) reachable.construct inputs returns ok2 saturated
    zero(1,2,3) raises ten_pow_400_too_large overflow big_v overflow_v
  show ?thesis
    by (intro conjI)
qed

text \<open>
  Two inputs at which the claim C6 fails as stated. A model whose velocity has been set to
  the Python integer 0 after construction (\<^verbatim>\<open>model = Vehicle(); model.v = 0\<close>): the
  numerator \<^verbatim>\<open>(w_w * self.r_e) - self.v\<close> is the Python float 10.5, and \<^verbatim>\<open>10.5 / 0\<close> raises
  \<^verbatim>\<open>ZeroDivisionError\<close>. A new model stepped with the Python integer \<^verbatim>\<open>10**400\<close> for the
  throttle: \<^verbatim>\<open>throttle * (...)\<close> multiplies it with the Python float 408.0, and the
  conversion raises \<^verbatim>\<open>OverflowError\<close>.
\<close>

theorem step_zero_velocity_python_counterexample:
  "step (Vehicle_init\<lparr> v := PyInt 0 \<rparr>) (PyFloat 0.2) (PyInt 0) = Inl ZeroDivisionError
   \<and> step Vehicle_init (PyInt (10 ^ 400)) (PyInt 0) = Inl OverflowError"
proof -
  have "step (Vehicle_init\<lparr> v := PyInt 0 \<rparr>) (PyFloat 0.2) (PyInt 0) = Inl ZeroDivisionError"
    by (simp add: step_def as_float_def np_sin_def truediv_def Vehicle_init_def Let_def)
  with step_throttle_ten_pow_400 show ?thesis
    by (rule conjI [rotated])
qed

text \<open>
  C8. Neither \<^verbatim>\<open>step\<close> nor \<^verbatim>\<open>reset\<close> changes a parameter: \<open>a_0\<close>, \<open>a_1\<close>, \<open>a_2\<close>, \<open>GR\<close>,
  \<open>r_e\<close>, \<open>J_e\<close>, \<open>m\<close>, \<open>g\<close>, \<open>c_a\<close>, \<open>c_r1\<close>, \<open>c\<close>, \<open>F_max\<close> and \<open>sample_time\<close> are
  the same after the call as before it.
\<close>

theorem parameters_unchanged:
  "(step M throttle alpha = Inr M' \<longrightarrow>
      a_0 M' = a_0 M \<and> a_1 M' = a_1 M \<and> a_2 M' = a_2 M \<and> GR M' = GR M \<and> r_e M' = r_e M
      \<and> J_e M' = J_e M \<and> m M' = m M \<and> g M' = g M \<and> c_a M' = c_a M \<and> c_r1 M' = c_r1 M
      \<and> c M' = c M \<and> F_max M' = F_max M \<and> sample_time M' = sample_time M)
   \<and> a_0 (reset M) = a_0 M \<and> a_1 (reset M) = a_1 M \<and> a_2 (reset M) = a_2 M
   \<and> GR (reset M) = GR M \<and> r_e (reset M) = r_e M \<and> J_e (reset M) = J_e M
   \<and> m (reset M) = m M \<and> g (reset M) = g M \<and> c_a (reset M) = c_a M
   \<and> c_r1 (reset M) = c_r1 M \<and> c (reset M) = c M \<and> F_max (reset M) = F_max M
   \<and> sample_time (reset M) = sample_time M"
  using step_frame [of M throttle alpha M'] reset_frame [of M]
  by (simp add: same_parameters_def)

theorem parameters_unchanged_witness:
  "step Vehicle_init (PyFloat 0.2) (PyInt 0) =
     Inr (Vehicle_init\<lparr> a := Np 4.982975, v := Np 5.04982975, x := Np 0.0504982975,
                        w_e_dot := Np 7.802475, w_e := Np 100.07802475 \<rparr>)
   \<and> m (Vehicle_init\<lparr> a := Np 4.982975, v := Np 5.04982975, x := Np 0.0504982975,
                        w_e_dot := Np 7.802475, w_e := Np 100.07802475 \<rparr>) = m Vehicle_init
   \<and> sample_time (Vehicle_init\<lparr> a := Np 4.982975, v := Np 5.04982975, x := Np 0.0504982975,
                        w_e_dot := Np 7.802475, w_e := Np 100.07802475 \<rparr>) = sample_time Vehicle_init"
  using step_first_example
    parameters_unchanged [of Vehicle_init "PyFloat 0.2" "PyInt 0" "Vehicle_init\<lparr> a := Np 4.982975,
      v := Np 5.04982975, x := Np 0.0504982975, w_e_dot := Np 7.802475, w_e := Np 100.07802475 \<rparr>"]
  by simp

section \<open>Reset and replay\<close>

text \<open>
  C4. \<^verbatim>\<open>reset\<close> sets the state variables to \<open>x = 0\<close>, \<open>v = 5\<close>, \<open>a = 0\<close>, \<open>w_e = 100\<close>,
  \<open>w_e_dot = 0\<close>, the values the constructor assigns; a second \<^verbatim>\<open>reset\<close> changes nothing;
  and from a reachable state \<^verbatim>\<open>reset\<close> gives the very model the constructor builds.
\<close>

theorem reset_restores_initial_state:
  "x (reset M) = PyInt 0 \<and> v (reset M) = PyInt 5 \<and> a (reset M) = PyInt 0
   \<and> w_e (reset M) = PyInt 100 \<and> w_e_dot (reset M) = PyInt 0
   \<and> same_state (reset M) Vehicle_init
   \<and> reset (reset M) = reset M
   \<and> (reachable M \<longrightarrow> reset M = Vehicle_init)"
  using reset_of_default_parameters [OF reachable_parameters, of M]
  by (simp add: reset_def same_state_def Vehicle_init_def)

theorem reset_restores_initial_state_witness:
  "reachable (Vehicle_init\<lparr> a := Np 4.982975, v := Np 5.04982975, x := Np 0.0504982975,
                           w_e_dot := Np 7.802475, w_e := Np 100.07802475 \<rparr>)
   \<and> reset (Vehicle_init\<lparr> a := Np 4.982975, v := Np 5.04982975, x := Np 0.0504982975,
                           w_e_dot := Np 7.802475, w_e := Np 100.07802475 \<rparr>) = Vehicle_init"
  using reachable_first_example
    reset_restores_initial_state [of "Vehicle_init\<lparr> a := Np 4.982975, v := Np 5.04982975,
      x := Np 0.0504982975, w_e_dot := Np 7.802475, w_e := Np 100.07802475 \<rparr>"]
  by simp

text \<open>
  C5. \<^verbatim>\<open>step\<close> is deterministic: two runs that start with the same parameters and the same
  state variables and apply \<^verbatim>\<open>step\<close> to input sequences with the same first \<open>N\<close> entries
  end, after \<open>N\<close> steps, in the same state (or both with the same exception), for every
  \<open>N\<close>. A replay on a used model after \<^verbatim>\<open>reset\<close> is the run of a new model.
\<close>

theorem step_deterministic:
  "(same_parameters M1 M2 \<and> same_state M1 M2 \<and> take N us1 = take N us2 \<longrightarrow>
      steps M1 (take N us1) = steps M2 (take N us2))
   \<and> (reachable M1 \<longrightarrow> steps (reset M1) (take N us1) = steps Vehicle_init (take N us1))"
  using same_parameters_state_eq [of M1 M2] steps_replay [of M1 "take N us1"]
  by auto

theorem step_deterministic_witness:
  "same_parameters Vehicle_init (reset Vehicle_init) \<and> same_state Vehicle_init (reset Vehicle_init)
   \<and> take (Suc 0) [(PyFloat 0.2, PyInt 0), (PyFloat 0.3, PyInt 0)]
       = take (Suc 0) [(PyFloat 0.2, PyInt 0), (PyFloat 0.5, PyInt 1)]
   \<and> steps Vehicle_init (take (Suc 0) [(PyFloat 0.2, PyInt 0), (PyFloat 0.3, PyInt 0)])
       = steps (reset Vehicle_init) (take (Suc 0) [(PyFloat 0.2, PyInt 0), (PyFloat 0.5, PyInt 1)])
   \<and> reachable Vehicle_init
   \<and> steps (reset Vehicle_init) (take (Suc 0) [(PyFloat 0.2, PyInt 0), (PyFloat 0.3, PyInt 0)])
       = steps Vehicle_init (take (Suc 0) [(PyFloat 0.2, PyInt 0), (PyFloat 0.3, PyInt 0)])"
proof -
  have h1: "same_parameters Vehicle_init (reset Vehicle_init)"
    by (simp add: same_parameters_def reset_def)
  have h2: "same_state Vehicle_init (reset Vehicle_init)"
    by (simp add: same_state_def reset_def Vehicle_init_def)
  have h3: "take (Suc 0) [(PyFloat 0.2, PyInt 0), (PyFloat 0.3, PyInt 0)]
       = take (Suc 0) [(PyFloat 0.2, PyInt 0), (PyFloat 0.5, PyInt 1)]"
    by simp
  from h1 h2 h3 reachable.construct
    step_deterministic [of Vehicle_init "reset Vehicle_init" "Suc 0"
      "[(PyFloat 0.2, PyInt 0), (PyFloat 0.3, PyInt 0)]"
      "[(PyFloat 0.2, PyInt 0), (PyFloat 0.5, PyInt 1)]"]
  show ?thesis
    by blast
qed

section \<open>The driving loops\<close>

text \<open>
  C7. As stated, that the ramp loop feeds \<open>arctan (9 / 90)\<close> for every position \<open>x \<ge> 60\<close>, the
  claim fails from \<open>x = 150\<close> on, where the loop's \<^verbatim>\<open>else\<close> branch sets the angle to 0.
  Amended: the angle fed to \<^verbatim>\<open>step\<close> at iteration \<open>i\<close> is \<open>arctan (3 / 60)\<close> when the model's
  position is below 60, \<open>arctan (9 / 90)\<close> when it is at least 60 and below 150, and 0 when
  it is 150 or more.
\<close>

theorem ramp_alpha_three_segments:
  "ramp_alpha px =
     (if px < 60 then arctan (3 / 60) else if px < 150 then arctan (9 / 90) else 0)
   \<and> (reachable M \<and> arrays_of_length (length t_data) arrays \<and> i < length t_data \<longrightarrow>
        (\<exists>Mf arrays' Mi. ramp_loop 0 t_data M arrays = Inr (Mf, arrays')
           \<and> ramp_model t_data M i = Inr Mi
           \<and> alpha_a arrays' ! i = ramp_alpha (val (x Mi))
           \<and> ramp_model t_data M (Suc i)
               = step Mi (Np (throttle_a arrays' ! i)) (Np (alpha_a arrays' ! i))))"
proof -
  have 1: "ramp_alpha px =
     (if px < 60 then arctan (3 / 60) else if px < 150 then arctan (9 / 90) else 0)"
    by (simp add: ramp_alpha_def)
  have 2: "\<exists>Mf arrays' Mi. ramp_loop 0 t_data M arrays = Inr (Mf, arrays')
           \<and> ramp_model t_data M i = Inr Mi
           \<and> alpha_a arrays' ! i = ramp_alpha (val (x Mi))
           \<and> ramp_model t_data M (Suc i)
               = step Mi (Np (throttle_a arrays' ! i)) (Np (alpha_a arrays' ! i))"
    if "reachable M" and "arrays_of_length (length t_data) arrays" and "i < length t_data"
  proof -
    from ramp_loop_sample [OF that] obtain Mf arrays' Mi where
      s: "ramp_loop 0 t_data M arrays = Inr (Mf, arrays')" "ramp_model t_data M i = Inr Mi"
         "alpha_a arrays' ! i = ramp_alpha (val (x Mi))"
         "throttle_a arrays' ! i = ramp_throttle (t_data ! i)"
      by blast
    then have "ramp_model t_data M (Suc i)
        = step Mi (Np (throttle_a arrays' ! i)) (Np (alpha_a arrays' ! i))"
      by simp
    with s show ?thesis by blast
  qed
  from 1 2 show ?thesis by blast
qed

theorem ramp_alpha_three_segments_witness:
  "ramp_alpha 0 = arctan (3 / 60) \<and> ramp_alpha 60 = arctan (9 / 90) \<and> ramp_alpha 150 = 0
   \<and> reachable Vehicle_init
   \<and> arrays_of_length (length [0 :: real])
        \<lparr> alpha_a = [0], throttle_a = [0], x_data = [0], v_a = [0] \<rparr>
   \<and> 0 < length [0 :: real]
   \<and> (\<exists>Mf arrays'. ramp_loop 0 [0] Vehicle_init
           \<lparr> alpha_a = [0], throttle_a = [0], x_data = [0], v_a = [0] \<rparr> = Inr (Mf, arrays')
         \<and> alpha_a arrays' ! 0 = arctan (3 / 60))"
  using ramp_alpha_three_segments [of 0 Vehicle_init "[0]"
      "\<lparr> alpha_a = [0], throttle_a = [0], x_data = [0], v_a = [0] \<rparr>" 0]
    ramp_alpha_three_segments [of 60 Vehicle_init "[0]"
      "\<lparr> alpha_a = [0], throttle_a = [0], x_data = [0], v_a = [0] \<rparr>" 0]
    ramp_alpha_three_segments [of 150 Vehicle_init "[0]"
      "\<lparr> alpha_a = [0], throttle_a = [0], x_data = [0], v_a = [0] \<rparr>" 0]
    reachable.construct
  by (auto simp add: arrays_of_length_def Vehicle_init_def)

text \<open>
  The position at which the claim C7 fails as stated: at \<open>x = 150\<close>, which is not below 60,
  the angle is 0 and not \<open>arctan (9 / 90)\<close>.
\<close>

theorem ramp_alpha_beyond_ramp_counterexample:
  "(60 :: real) \<le> 150 \<and> ramp_alpha 150 = 0 \<and> ramp_alpha 150 \<noteq> arctan (9 / 90)"
  by (simp add: ramp_alpha_def)

text \<open>
  C9. Both recording loops store the sample for index \<open>i\<close> before they call \<^verbatim>\<open>step\<close> for
  index \<open>i\<close>: run from a reachable state, with a throttle and an angle that \<^verbatim>\<open>step\<close> takes,
  each loop returns, and the value at index \<open>i\<close> of each recorded array is that of the
  model before its \<open>i\<close>-th step, after \<open>i\<close> steps from the start; the time at index \<open>i\<close> of
  \<^verbatim>\<open>np.arange(0, stop, dt)\<close> is \<open>i * dt\<close>.
\<close>

theorem recorder_samples_before_step:
  "(reachable M \<and> fits_double throttle \<and> numpy_number alpha
      \<and> length v_data0 = n \<and> i < n \<longrightarrow>
      (\<exists>Mf v_data' Mi. constant_throttle_loop 0 n throttle alpha M v_data0 = Inr (Mf, v_data')
          \<and> constant_throttle_model throttle alpha M i = Inr Mi
          \<and> v_data' ! i = val (v Mi)))
   \<and> (reachable M \<and> arrays_of_length (length t_data) arrays \<and> i < length t_data \<longrightarrow>
      (\<exists>Mf arrays' Mi. ramp_loop 0 t_data M arrays = Inr (Mf, arrays')
          \<and> ramp_model t_data M i = Inr Mi
          \<and> x_data arrays' ! i = val (x Mi) \<and> v_a arrays' ! i = val (v Mi)))
   \<and> (i < length (arange stop dt) \<longrightarrow> arange stop dt ! i = real i * dt)"
  using constant_throttle_loop_sample [of M throttle alpha v_data0 n i]
    ramp_loop_sample [of M t_data arrays i] arange_nth [of i stop dt]
  by blast

theorem recorder_samples_before_step_witness:
  "reachable Vehicle_init \<and> fits_double (PyFloat 0.2) \<and> numpy_number (PyInt 0)
   \<and> length [0 :: real, 0] = Suc (Suc 0) \<and> Suc 0 < Suc (Suc 0)
   \<and> (\<exists>Mf v_data'. constant_throttle_loop 0 (Suc (Suc 0)) (PyFloat 0.2) (PyInt 0)
           Vehicle_init [0, 0] = Inr (Mf, v_data')
         \<and> v_data' ! Suc 0 = 5.04982975)
   \<and> arrays_of_length (length [0 :: real, 0.01])
        \<lparr> alpha_a = [0, 0], throttle_a = [0, 0], x_data = [0, 0], v_a = [0, 0] \<rparr>
   \<and> Suc 0 < length [0 :: real, 0.01]
   \<and> (\<exists>Mf arrays' Mi. ramp_loop 0 [0, 0.01] Vehicle_init
           \<lparr> alpha_a = [0, 0], throttle_a = [0, 0], x_data = [0, 0], v_a = [0, 0] \<rparr> = Inr (Mf, arrays')
         \<and> step Vehicle_init (Np 0.2) (Np (arctan (3 / 60))) = Inr Mi
         \<and> x_data arrays' ! Suc 0 = val (x Mi) \<and> v_a arrays' ! Suc 0 = val (v Mi))
   \<and> Suc 0 < length (arange 0.02 0.01) \<and> arange 0.02 0.01 ! Suc 0 = 0.01"
  using recorder_samples_before_step [of Vehicle_init "PyFloat 0.2" "PyInt 0" "[0, 0]"
      "Suc (Suc 0)" "Suc 0"
      "[0, 0.01]" "\<lparr> alpha_a = [0, 0], throttle_a = [0, 0], x_data = [0, 0], v_a = [0, 0] \<rparr>"
      "0.02" "0.01"]
    reachable.construct step_first_example
  by (auto simp add: arrays_of_length_def Vehicle_init_def ramp_throttle_def ramp_alpha_def arange_def)

end
